theory Spec2Isabelle
  imports Complex_Main "HOL-Library.Char_ord" "HOL-Library.List_Lexorder" "HOL-Library.AList"
begin

section \<open>Python exceptions\<close>

text \<open>
  The exceptions that the two modules raise themselves or receive from the operations they
  call. \<open>BaseExc\<close> stands for an exception that derives from \<open>BaseException\<close> but not from
  \<open>Exception\<close> (\<open>KeyboardInterrupt\<close>, \<open>SystemExit\<close>, \<open>asyncio.CancelledError\<close>): a handler
  \<open>except Exception\<close> does not catch it.
\<close>

datatype pyexc =
    TypeError string
  | AttributeError string
  | KeyError string
  | NameError string
  | BuildTrackError string
  | OtherException string
  | BaseExc string


section \<open>meta.py: the listener marker and the member scan\<close>

subsection \<open>Function objects and \<open>WavelinkMixin.listener\<close>\<close>

text \<open>
  A function object, as far as \<open>meta.py\<close> looks at it: its \<open>__name__\<close>, what
  \<open>inspect.iscoroutinefunction\<close> answers for it, and its attribute
  \<open>__wavelink_listeners__\<close> (\<open>None\<close> when the function has no such attribute, which is the
  state of every function that was just defined).
\<close>

record func =
  fn_name :: string
  is_coroutine :: bool
  wavelink_listeners :: "string list option"

text \<open>
  \<open>wrapper\<close> is the closure that \<open>listener(event)\<close> returns. It works on the function object
  in place, so the model returns the outcome (\<open>Inl\<close> an exception, \<open>Inr ()\<close> for
  \<open>return func\<close>) together with the function object as it is afterwards.
  \<open>getattr(func, "__wavelink_listeners__")\<close> is called without a default, so it raises
  \<open>AttributeError\<close> when the attribute is absent. \<open>event or func.__name__\<close> takes the
  function's name when \<open>event\<close> is \<open>None\<close> or the empty string.
\<close>

definition wrapper :: "string option \<Rightarrow> func \<Rightarrow> (pyexc + unit) \<times> func" where
  "wrapper event f =
     (if \<not> is_coroutine f then (Inl (TypeError ''Wavelink listeners must be coroutines.''), f)
      else
        let name = (case event of None \<Rightarrow> fn_name f
                    | Some e \<Rightarrow> if e \<noteq> [] then e else fn_name f)
        in case wavelink_listeners f of
             None \<Rightarrow> (Inl (AttributeError ''__wavelink_listeners__''), f)
           | Some listeners \<Rightarrow>
               if listeners \<noteq> [] then (Inr (), f\<lparr>wavelink_listeners := Some (listeners @ [name])\<rparr>)
               else (Inr (), f\<lparr>wavelink_listeners := Some [name]\<rparr>))"

definition listener :: "string option \<Rightarrow> func \<Rightarrow> (pyexc + unit) \<times> func" where
  "listener event = wrapper event"

subsection \<open>\<open>WavelinkMixin.__new__\<close>\<close>

text \<open>
  The values found among the members of a class: functions, the dictionary that
  \<open>__new__\<close> itself stores on the class, and any other object, which has no \<open>__name__\<close> and
  may or may not carry a \<open>__wavelink_listeners__\<close> attribute.
\<close>

type_synonym listener_map = "(string \<times> string list) list"

datatype element =
    Function func
  | Dict listener_map
  | Object "string list option"

fun element_listeners :: "element \<Rightarrow> string list option" where
  "element_listeners (Function f) = wavelink_listeners f"
| "element_listeners (Dict d) = None"
| "element_listeners (Object ls) = ls"

fun element_name :: "element \<Rightarrow> string option" where
  "element_name (Function f) = Some (fn_name f)"
| "element_name (Dict d) = None"
| "element_name (Object ls) = None"

text \<open>
  \<open>listeners[listener].append(name)\<close>, and \<open>listeners[listener] = [name]\<close> on \<open>KeyError\<close>.
  The dictionary is an association list in insertion order with distinct keys.
\<close>

definition add_listener :: "listener_map \<Rightarrow> string \<Rightarrow> string \<Rightarrow> listener_map" where
  "add_listener listeners l name =
     (case map_of listeners l of
        Some names \<Rightarrow> AList.update l (names @ [name]) listeners
      | None \<Rightarrow> listeners @ [(l, [name])])"

text \<open>The inner loop over \<open>element_listeners\<close>; \<open>element.__name__\<close> is read once per round.\<close>

fun register :: "string option \<Rightarrow> string list \<Rightarrow> listener_map \<Rightarrow> pyexc + listener_map" where
  "register nm [] listeners = Inr listeners"
| "register nm (l # ls) listeners =
     (case nm of
        None \<Rightarrow> Inl (AttributeError ''__name__'')
      | Some name \<Rightarrow> register nm ls (add_listener listeners l name))"

text \<open>The outer loop over the members; a member without the attribute is skipped.\<close>

fun scan :: "(string \<times> element) list \<Rightarrow> listener_map \<Rightarrow> pyexc + listener_map" where
  "scan [] listeners = Inr listeners"
| "scan ((name, el) # members) listeners =
     (case element_listeners el of
        None \<Rightarrow> scan members listeners
      | Some ls \<Rightarrow>
          (case register (element_name el) ls listeners of
             Inl e \<Rightarrow> Inl e
           | Inr listeners' \<Rightarrow> scan members listeners'))"

text \<open>
  A class is its attribute table (own and inherited attributes, names distinct).
  \<open>inspect.getmembers\<close> returns the attributes sorted by name. \<open>__new__\<close> scans them on
  every call, without looking for an earlier result, and then binds the class attribute
  \<open>__wavelink_listeners__\<close> to the new dictionary. An instance has no attribute of that name
  of its own, so reading it on any instance gives what the class holds at that moment.
\<close>

record pyclass =
  attrs :: "(string \<times> element) list"

definition getmembers :: "pyclass \<Rightarrow> (string \<times> element) list" where
  "getmembers cls = sort_key fst (attrs cls)"

definition class_setattr :: "pyclass \<Rightarrow> string \<Rightarrow> element \<Rightarrow> pyclass" where
  "class_setattr cls name v = cls\<lparr>attrs := AList.update name v (attrs cls)\<rparr>"

definition class_listeners :: "pyclass \<Rightarrow> element option" where
  "class_listeners cls = map_of (attrs cls) ''__wavelink_listeners__''"

definition wavelink_new :: "pyclass \<Rightarrow> pyexc + pyclass" where
  "wavelink_new cls =
     (case scan (getmembers cls) [] of
        Inl e \<Rightarrow> Inl e
      | Inr listeners \<Rightarrow> Inr (class_setattr cls ''__wavelink_listeners__'' (Dict listeners)))"

section \<open>node.py: decoded JSON bodies\<close>

text \<open>
  What \<open>resp.json()\<close> returns: \<open>None\<close>, a bool, a number, a string, a list or a dict (an
  association list with distinct keys). The operations below are the ones \<open>node.py\<close> applies
  to such a value, with the exception Python raises when the value has the wrong type.
\<close>

datatype json =
    JNull
  | JBool bool
  | JNum real
  | JStr string
  | JList "json list"
  | JObj "(string \<times> json) list"

text \<open>Python's truth value, as \<open>not x\<close> and \<open>if x:\<close> test it.\<close>

fun truthy :: "json \<Rightarrow> bool" where
  "truthy JNull = False"
| "truthy (JBool b) = b"
| "truthy (JNum x) = (x \<noteq> 0)"
| "truthy (JStr s) = (s \<noteq> [])"
| "truthy (JList xs) = (xs \<noteq> [])"
| "truthy (JObj kvs) = (kvs \<noteq> [])"

text \<open>\<open>data.get(key, None)\<close>: only a dict has the method.\<close>

fun dict_get :: "json \<Rightarrow> string \<Rightarrow> pyexc + json" where
  "dict_get (JObj kvs) key = Inr (case map_of kvs key of Some v \<Rightarrow> v | None \<Rightarrow> JNull)"
| "dict_get _ key = Inl (AttributeError ''get'')"

text \<open>\<open>data[key]\<close> with a string key.\<close>

fun subscript :: "json \<Rightarrow> string \<Rightarrow> pyexc + json" where
  "subscript (JObj kvs) key = (case map_of kvs key of Some v \<Rightarrow> Inr v | None \<Rightarrow> Inl (KeyError key))"
| "subscript _ key = Inl (TypeError ''subscript'')"

text \<open>\<open>for x in v\<close>: a list gives its items, a string its characters, a dict its keys.\<close>

fun iterate :: "json \<Rightarrow> pyexc + json list" where
  "iterate (JList xs) = Inr xs"
| "iterate (JStr s) = Inr (map (\<lambda>c. JStr [c]) s)"
| "iterate (JObj kvs) = Inr (map (\<lambda>kv. JStr (fst kv)) kvs)"
| "iterate _ = Inl (TypeError ''not iterable'')"

section \<open>node.py: the node and what it refers to\<close>

text \<open>
  \<open>Track\<close> and \<open>TrackPlaylist\<close> come from \<open>player.py\<close>; \<open>node.py\<close> only constructs them, so
  they are the constructor arguments. A player is known by its guild id. The node's hook
  is a callable: whether it is a coroutine function, and what running it on an event does
  (\<open>None\<close>: it returns, \<open>Some e\<close>: it raises \<open>e\<close>).
\<close>

datatype track = Track (track_id: json) (track_info: json)

datatype player = Player (guild_id: int)

record event =
  event_player :: "player option"
  event_name :: string

record hook_fn =
  hook_is_coroutine :: bool
  hook_run :: "event \<Rightarrow> pyexc option"

record penalty_t =
  total :: real

record stats_t =
  stats_penalty :: penalty_t

record task =
  cancel_raises :: "pyexc option"

record websocket =
  is_connected :: bool
  ws_task :: "task option"

text \<open>
  The fields \<open>Node.__init__\<close> sets. \<open>session\<close> and \<open>_client\<close> are references to objects
  outside the node; they appear below as arguments of the operations that use them.
\<close>

record node =
  host :: string
  port :: int
  rest_uri :: string
  shards :: int
  uid :: int
  password :: string
  region :: string
  node_identifier :: string
  secure :: bool
  heartbeat :: "real option"
  shard_id :: "int option"
  players :: "(int \<times> player) list"
  node_websocket :: "websocket option"
  hook :: "hook_fn option"
  available :: bool
  stats :: "stats_t option"

subsection \<open>\<open>close\<close>, \<open>open\<close>, \<open>penalty\<close>\<close>

definition close :: "node \<Rightarrow> node" where
  "close n = n\<lparr>available := False\<rparr>"

definition open_node :: "node \<Rightarrow> node" where
  "open_node n = n\<lparr>available := True\<rparr>"

text \<open>
  The literal \<open>9e30\<close>. Penalties are real numbers here: a float literal stands for the
  decimal it is written as, and \<open>penalty\<close> does no arithmetic on it.
\<close>

definition sentinel :: real where
  "sentinel = 9 * 10 ^ 30"

definition penalty :: "node \<Rightarrow> real" where
  "penalty n =
     (if \<not> available n \<or> stats n = None then sentinel
      else total (stats_penalty (the (stats n))))"

text \<open>
  The websocket layer replaces the snapshot by assignment to \<open>node.stats\<close>. A history of a
  node is a list of these three operations.
\<close>

datatype node_op = Open | Close | StatsUpdate stats_t

fun apply_op :: "node \<Rightarrow> node_op \<Rightarrow> node" where
  "apply_op n Open = open_node n"
| "apply_op n Close = close n"
| "apply_op n (StatsUpdate s) = n\<lparr>stats := Some s\<rparr>"

definition run_ops :: "node \<Rightarrow> node_op list \<Rightarrow> node" where
  "run_ops n ops = foldl apply_op n ops"

text \<open>What a history leaves in the two fields \<open>penalty\<close> reads: the last write wins.\<close>

fun last_available :: "bool \<Rightarrow> node_op list \<Rightarrow> bool" where
  "last_available a [] = a"
| "last_available a (Open # ops) = last_available True ops"
| "last_available a (Close # ops) = last_available False ops"
| "last_available a (StatsUpdate s # ops) = last_available a ops"

fun last_stats :: "stats_t option \<Rightarrow> node_op list \<Rightarrow> stats_t option" where
  "last_stats st [] = st"
| "last_stats st (StatsUpdate s # ops) = last_stats (Some s) ops"
| "last_stats st (_ # ops) = last_stats st ops"

subsection \<open>The REST calls: \<open>get_tracks\<close> and \<open>build_track\<close>\<close>

text \<open>
  A response is its status and what \<open>await resp.json()\<close> gives (the decoded body, or the
  exception aiohttp raises for a body that is not JSON). \<open>session.get\<close> itself may raise
  instead of giving a response. The calls leave a trace: the requests sent and the sleeps.
\<close>

record response =
  status :: int
  json_result :: "pyexc + json"

datatype effect =
    HttpGet string "(string \<times> string) list" "(string \<times> string) list"
  | Sleep real

text \<open>
  What the module takes from outside its own text. \<open>node.py\<close> imports \<open>inspect\<close>,
  \<open>logging\<close> and \<open>quote\<close>, the names \<open>Track\<close>, \<open>TrackPlaylist\<close>, \<open>WebSocket\<close>, and everything
  \<open>errors.py\<close> exports; it has no \<open>import asyncio\<close>. So the name \<open>asyncio\<close> in
  \<open>get_tracks\<close> is bound only if \<open>errors.py\<close> happens to export it: \<open>asyncio_bound\<close>.
  \<open>quote\<close> is \<open>urllib.parse.quote\<close>, and \<open>format\<close> is the text an f-string puts in for a
  decoded value.
\<close>

record rest_env =
  asyncio_bound :: bool
  quote :: "string \<Rightarrow> string"
  format :: "json \<Rightarrow> string"

definition loadtracks_request :: "rest_env \<Rightarrow> node \<Rightarrow> string \<Rightarrow> effect" where
  "loadtracks_request E n query =
     HttpGet (rest_uri n @ ''/loadtracks?identifier='' @ quote E query)
             [(''Authorization'', password n)] []"

text \<open>
  The \<open>while retries > 0\<close> loop. \<open>srv i\<close> is what the \<open>i\<close>-th request of this call meets.
  The arguments are the number of requests already sent, \<open>retries\<close>, and \<open>data\<close> (unbound
  before the first request). The loop returns \<open>retries\<close> and \<open>data\<close> as they are when
  it ends. A status other than 200 decrements \<open>retries\<close> and goes on to
  \<open>await asyncio.sleep(0.2)\<close>, where the name \<open>asyncio\<close> is looked up; status 200 leaves
  the loop at \<open>break\<close>, before the sleep.
\<close>

fun request_loop ::
  "rest_env \<Rightarrow> node \<Rightarrow> (nat \<Rightarrow> pyexc + response) \<Rightarrow> string \<Rightarrow> nat \<Rightarrow> nat \<Rightarrow> json option
     \<Rightarrow> (pyexc + nat \<times> json option) \<times> effect list" where
  "request_loop E n srv query i 0 data = (Inr (0, data), [])"
| "request_loop E n srv query i (Suc retries) data =
     (case srv i of
        Inl e \<Rightarrow> (Inl e, [loadtracks_request E n query])
      | Inr resp \<Rightarrow>
          (case json_result resp of
             Inl e \<Rightarrow> (Inl e, [loadtracks_request E n query])
           | Inr d \<Rightarrow>
               if status resp \<noteq> 200 then
                 (if asyncio_bound E then
                    (case request_loop E n srv query (Suc i) retries (Some d) of
                       (r, tr) \<Rightarrow> (r, loadtracks_request E n query # Sleep (2 / 10) # tr))
                  else (Inl (NameError ''asyncio''), [loadtracks_request E n query]))
               else (Inr (Suc retries, Some d), [loadtracks_request E n query])))"

text \<open>What \<open>get_tracks\<close> returns: \<open>None\<close>, a \<open>TrackPlaylist(data=data)\<close>, or a list of tracks.\<close>

datatype tracks_result =
    NoTracks
  | TrackPlaylist json
  | TrackList "track list"

text \<open>The \<open>for track in data["tracks"]\<close> loop.\<close>

fun make_tracks :: "json list \<Rightarrow> pyexc + track list" where
  "make_tracks [] = Inr []"
| "make_tracks (t # ts) =
     (case subscript t ''track'' of
        Inl e \<Rightarrow> Inl e
      | Inr i \<Rightarrow>
          (case subscript t ''info'' of
             Inl e \<Rightarrow> Inl e
           | Inr nfo \<Rightarrow>
               (case make_tracks ts of
                  Inl e \<Rightarrow> Inl e
                | Inr tracks \<Rightarrow> Inr (Track i nfo # tracks))))"

text \<open>
  The part of \<open>get_tracks\<close> after the loop. \<open>retries == 0 or not data.get("tracks", None)\<close>
  does not look at \<open>data\<close> when \<open>retries\<close> is 0.
\<close>

definition read_tracks :: "nat \<Rightarrow> json option \<Rightarrow> pyexc + tracks_result" where
  "read_tracks retries data =
     (if retries = 0 then Inr NoTracks
      else case data of
        None \<Rightarrow> Inl (NameError ''data'')
      | Some d \<Rightarrow>
          (case dict_get d ''tracks'' of
             Inl e \<Rightarrow> Inl e
           | Inr t \<Rightarrow>
               if \<not> truthy t then Inr NoTracks
               else
                 (case subscript d ''playlistInfo'' of
                    Inl e \<Rightarrow> Inl e
                  | Inr pl \<Rightarrow>
                      if truthy pl then Inr (TrackPlaylist d)
                      else
                        (case subscript d ''tracks'' of
                           Inl e \<Rightarrow> Inl e
                         | Inr ts \<Rightarrow>
                             (case iterate ts of
                                Inl e \<Rightarrow> Inl e
                              | Inr items \<Rightarrow>
                                  (case make_tracks items of
                                     Inl e \<Rightarrow> Inl e
                                   | Inr tracks \<Rightarrow> Inr (TrackList tracks)))))))"

definition get_tracks ::
  "rest_env \<Rightarrow> node \<Rightarrow> (nat \<Rightarrow> pyexc + response) \<Rightarrow> string
     \<Rightarrow> (pyexc + tracks_result) \<times> effect list" where
  "get_tracks E n srv query =
     (case request_loop E n srv query 0 5 None of
        (Inl e, tr) \<Rightarrow> (Inl e, tr)
      | (Inr (retries, data), tr) \<Rightarrow> (read_tracks retries data, tr))"

definition decodetrack_request :: "node \<Rightarrow> string \<Rightarrow> effect" where
  "decodetrack_request n ident =
     HttpGet (rest_uri n @ ''/decodetrack'') [(''Authorization'', password n)] [(''track'', ident)]"

definition build_error_message :: "rest_env \<Rightarrow> json \<Rightarrow> json \<Rightarrow> string" where
  "build_error_message E st err =
     ''Failed to build track. Status: '' @ format E st @ '', Error: '' @ format E err
       @ ''.Check the identfier is correct and try again.''"

text \<open>\<open>build_track\<close> sends one request; \<open>http\<close> is what that request meets.\<close>

definition build_track ::
  "rest_env \<Rightarrow> node \<Rightarrow> pyexc + response \<Rightarrow> string \<Rightarrow> (pyexc + track) \<times> effect list" where
  "build_track E n http ident =
     (case http of
        Inl e \<Rightarrow> (Inl e, [decodetrack_request n ident])
      | Inr resp \<Rightarrow>
          (case json_result resp of
             Inl e \<Rightarrow> (Inl e, [decodetrack_request n ident])
           | Inr data \<Rightarrow>
               if \<not> status resp = 200 then
                 (case subscript data ''status'' of
                    Inl e \<Rightarrow> (Inl e, [decodetrack_request n ident])
                  | Inr st \<Rightarrow>
                      (case subscript data ''error'' of
                         Inl e \<Rightarrow> (Inl e, [decodetrack_request n ident])
                       | Inr err \<Rightarrow>
                           (Inl (BuildTrackError (build_error_message E st err)),
                            [decodetrack_request n ident])))
               else (Inr (Track (JStr ident) data), [decodetrack_request n ident])))"

subsection \<open>\<open>on_event\<close>\<close>

text \<open>
  The hook invocations of one dispatch, in the order they happen. \<open>player_hook p ev\<close> is
  what awaiting \<open>event.player.hook(event)\<close> does (\<open>None\<close>: it returns).
\<close>

datatype dispatch =
    AwaitPlayerHook player
  | AwaitNodeHook
  | CallNodeHook

definition node_hook_step :: "node \<Rightarrow> event \<Rightarrow> (pyexc + unit) \<times> dispatch list" where
  "node_hook_step n ev =
     (case hook n of
        None \<Rightarrow> (Inr (), [])
      | Some h \<Rightarrow>
          if hook_is_coroutine h then
            (case hook_run h ev of None \<Rightarrow> (Inr (), [AwaitNodeHook])
             | Some e \<Rightarrow> (Inl e, [AwaitNodeHook]))
          else
            (case hook_run h ev of None \<Rightarrow> (Inr (), [CallNodeHook])
             | Some e \<Rightarrow> (Inl e, [CallNodeHook])))"

definition on_event ::
  "(player \<Rightarrow> event \<Rightarrow> pyexc option) \<Rightarrow> node \<Rightarrow> event \<Rightarrow> (pyexc + unit) \<times> dispatch list" where
  "on_event player_hook n ev =
     (case event_player ev of
        Some p \<Rightarrow>
          (case player_hook p ev of
             Some e \<Rightarrow> (Inl e, [AwaitPlayerHook p])
           | None \<Rightarrow>
               (case node_hook_step n ev of (r, tr) \<Rightarrow> (r, AwaitPlayerHook p # tr)))
      | None \<Rightarrow> node_hook_step n ev)"

subsection \<open>\<open>destroy\<close>\<close>





section \<open>Predicates used in the statements\<close>

text \<open>A request that met a response with a status other than 200 and a body that decodes.\<close>

definition failed :: "pyexc + response \<Rightarrow> bool" where
  "failed h = (case h of Inl e \<Rightarrow> False
               | Inr r \<Rightarrow> status r \<noteq> 200 \<and> (case json_result r of Inl e \<Rightarrow> False | Inr d \<Rightarrow> True))"

text \<open>A member that carries the attribute \<open>__wavelink_listeners__\<close>.\<close>

definition marked :: "string \<times> element \<Rightarrow> bool" where
  "marked m = (element_listeners (snd m) \<noteq> None)"

text \<open>
  The class attribute \<open>__wavelink_listeners__\<close> is absent, or holds something that is not
  itself marked (the dictionary of an earlier instantiation, for one).
\<close>

definition unmarked_slot :: "pyclass \<Rightarrow> bool" where
  "unmarked_slot cls = (case class_listeners cls of None \<Rightarrow> True | Some el \<Rightarrow> element_listeners el = None)"




section \<open>Concrete objects\<close>

text \<open>A node as \<open>Node.__init__\<close> leaves it, and the pieces the examples below run on.\<close>

definition example_node :: node where
  "example_node =
     \<lparr>host = ''127.0.0.1'', port = 2333, rest_uri = ''http://127.0.0.1:2333'', shards = 1,
      uid = 42, password = ''youshallnotpass'', region = ''europe'', node_identifier = ''MAIN'',
      secure = False, heartbeat = None, shard_id = None, players = [], node_websocket = None,
      hook = None, available = True, stats = None\<rparr>"

definition example_env :: "bool \<Rightarrow> rest_env" where
  "example_env bound = \<lparr>asyncio_bound = bound, quote = (\<lambda>s. s), format = (\<lambda>v. case v of JStr s \<Rightarrow> s | _ \<Rightarrow> ''?'')\<rparr>"

text \<open>A coroutine method that carries one marker under its own name.\<close>

definition marked_function :: "string \<Rightarrow> element" where
  "marked_function name = Function \<lparr>fn_name = name, is_coroutine = True, wavelink_listeners = Some [name]\<rparr>"

text \<open>A mixin subclass with one marked method and one inherited, unmarked default.\<close>

definition example_class :: pyclass where
  "example_class =
     \<lparr>attrs = [(''on_track_end'',
                Function \<lparr>fn_name = ''on_track_end'', is_coroutine = True, wavelink_listeners = None\<rparr>),
               (''on_node_ready'', marked_function ''on_node_ready'')]\<rparr>"




section \<open>Properties of \<open>meta.py\<close>\<close>

text \<open>
  On a coroutine function that already carries a non-empty list, one more marker appends
  its name: the given event, or the function's own name when none is given.
\<close>

lemma listener_appends:
  assumes "is_coroutine f" and "wavelink_listeners f = Some ls" and "ls \<noteq> []"
  shows "listener None f = (Inr (), f\<lparr>wavelink_listeners := Some (ls @ [fn_name f])\<rparr>)"
    and "e \<noteq> [] \<Longrightarrow> listener (Some e) f = (Inr (), f\<lparr>wavelink_listeners := Some (ls @ [e])\<rparr>)"
  using assms by (simp_all add: listener_def wrapper_def)

text \<open>
  C2. The claim: the marker, applied with no event argument to a coroutine function,
  registers the function under its own name, several markers accumulate their names, and
  the function is returned. The code does not get that far on a function that has not been
  marked before: \<open>getattr\<close> has no default, so the lookup of \<open>__wavelink_listeners__\<close> raises
  \<open>AttributeError\<close>, and the \<open>else\<close> branch that would create the list is out of reach.
  The theorem runs the marker on a freshly defined coroutine function \<open>on_node_ready\<close>.
\<close>

theorem listener_fresh_coroutine_raises:
  "listener None \<lparr>fn_name = ''on_node_ready'', is_coroutine = True, wavelink_listeners = None\<rparr>
     = (Inl (AttributeError ''__wavelink_listeners__''),
        \<lparr>fn_name = ''on_node_ready'', is_coroutine = True, wavelink_listeners = None\<rparr>)"
  by (simp add: listener_def wrapper_def)

text \<open>
  C9. Applying the marker to a function that is not a coroutine function raises
  \<open>TypeError\<close>, whatever the event argument, and the function object is left as it was:
  nothing has been registered on it.
\<close>

theorem listener_rejects_non_coroutine:
  "\<not> is_coroutine f \<Longrightarrow>
     listener event f = (Inl (TypeError ''Wavelink listeners must be coroutines.''), f)"
  by (simp add: listener_def wrapper_def)

theorem listener_rejects_non_coroutine_witness:
  "\<not> is_coroutine \<lparr>fn_name = ''on_track_end'', is_coroutine = False, wavelink_listeners = Some [''on_track_end'']\<rparr>
   \<and> listener (Some ''on_node_ready'')
        \<lparr>fn_name = ''on_track_end'', is_coroutine = False, wavelink_listeners = Some [''on_track_end'']\<rparr>
       = (Inl (TypeError ''Wavelink listeners must be coroutines.''),
          \<lparr>fn_name = ''on_track_end'', is_coroutine = False, wavelink_listeners = Some [''on_track_end'']\<rparr>)"
  using listener_rejects_non_coroutine
    [of "\<lparr>fn_name = ''on_track_end'', is_coroutine = False, wavelink_listeners = Some [''on_track_end'']\<rparr>"
        "Some ''on_node_ready''"]
  by simp

subsection \<open>The member scan of \<open>__new__\<close>\<close>

lemma scan_marked: "scan ms d = scan (filter marked ms) d"
proof (induction ms arbitrary: d)
  case Nil
  show ?case by simp
next
  case (Cons m ms)
  obtain name el where m: "m = (name, el)" by (cases m)
  show ?case using Cons.IH by (auto simp: m marked_def split: option.splits sum.splits)
qed

lemma filter_marked_update:
  assumes "element_listeners v = None"
    and "case map_of xs k of None \<Rightarrow> True | Some el \<Rightarrow> element_listeners el = None"
  shows "filter marked (AList.update k v xs) = filter marked xs"
  using assms
proof (induction xs)
  case Nil
  then show ?case by (simp add: marked_def)
next
  case (Cons x xs)
  obtain a b where x: "x = (a, b)" by (cases x)
  show ?case using Cons by (auto simp: x marked_def)
qed

lemma getmembers_setattr:
  assumes "element_listeners v = None"
    and "case map_of (attrs cls) k of None \<Rightarrow> True | Some el \<Rightarrow> element_listeners el = None"
  shows "scan (getmembers (class_setattr cls k v)) d = scan (getmembers cls) d"
proof -
  have "filter marked (getmembers (class_setattr cls k v)) = filter marked (getmembers cls)"
    using filter_marked_update[OF assms] by (simp add: getmembers_def class_setattr_def filter_sort)
  then show ?thesis by (metis scan_marked)
qed

lemma class_setattr_twice: "class_setattr (class_setattr cls k v) k v = class_setattr cls k v"
  by (simp add: class_setattr_def update_triv update_conv')

text \<open>
  C4, as the claim has it: the mapping is computed by the scan on the first instantiation
  only, and a later instantiation reuses what is stored on the type without scanning
  again. The code has no such test: every call of \<open>__new__\<close> scans the members and rebinds
  the class attribute. Instantiate \<open>example_class\<close> once: the class holds the mapping with
  \<open>on_node_ready\<close> alone. Replace the class's \<open>on_track_end\<close> by a marked method and
  instantiate again: the class now holds a mapping with both events, so the stored one was
  not reused.
\<close>

theorem wavelink_new_rescans:
  "wavelink_new example_class
     = Inr (class_setattr example_class ''__wavelink_listeners__''
              (Dict [(''on_node_ready'', [''on_node_ready''])]))
   \<and> class_listeners (class_setattr example_class ''__wavelink_listeners__''
              (Dict [(''on_node_ready'', [''on_node_ready''])]))
       = Some (Dict [(''on_node_ready'', [''on_node_ready''])])
   \<and> (case wavelink_new (class_setattr (class_setattr example_class ''__wavelink_listeners__''
              (Dict [(''on_node_ready'', [''on_node_ready''])])) ''on_track_end'' (marked_function ''on_track_end'')) of
         Inl e \<Rightarrow> None
       | Inr cls \<Rightarrow> class_listeners cls)
       = Some (Dict [(''on_node_ready'', [''on_node_ready'']), (''on_track_end'', [''on_track_end''])])"
  by (simp add: wavelink_new_def example_class_def class_setattr_def getmembers_def marked_function_def
        class_listeners_def add_listener_def)

text \<open>
  C4, amended. Every instantiation that returns, the first and any later one, has scanned
  the members of the class as they are at that moment and has stored the result on the
  type, where all instances read it. When the class is not changed in between, the next
  instantiation scans again, finds an equal mapping, and leaves the class as it is.
\<close>

theorem wavelink_new_every_time:
  assumes "wavelink_new cls = Inr cls'"
  shows "\<exists>listeners. scan (getmembers cls) [] = Inr listeners
           \<and> cls' = class_setattr cls ''__wavelink_listeners__'' (Dict listeners)
           \<and> class_listeners cls' = Some (Dict listeners)
           \<and> (unmarked_slot cls \<longrightarrow>
                scan (getmembers cls') [] = Inr listeners \<and> wavelink_new cls' = Inr cls')"
proof -
  from assms obtain listeners where l: "scan (getmembers cls) [] = Inr listeners"
    and c: "cls' = class_setattr cls ''__wavelink_listeners__'' (Dict listeners)"
    by (auto simp: wavelink_new_def split: sum.splits)
  have s: "class_listeners cls' = Some (Dict listeners)"
    by (simp add: c class_listeners_def class_setattr_def update_conv')
  have r: "scan (getmembers cls') [] = Inr listeners \<and> wavelink_new cls' = Inr cls'" if u: "unmarked_slot cls"
  proof -
    have "scan (getmembers cls') [] = scan (getmembers cls) []"
      unfolding c using u by (intro getmembers_setattr) (simp_all add: unmarked_slot_def class_listeners_def)
    then have g: "scan (getmembers cls') [] = Inr listeners" using l by simp
    then show ?thesis by (simp add: wavelink_new_def c class_setattr_twice)
  qed
  show ?thesis using l c s r by blast
qed

theorem wavelink_new_every_time_witness:
  "wavelink_new example_class
     = Inr (class_setattr example_class ''__wavelink_listeners__''
              (Dict [(''on_node_ready'', [''on_node_ready''])]))
   \<and> unmarked_slot example_class
   \<and> wavelink_new (class_setattr example_class ''__wavelink_listeners__''
              (Dict [(''on_node_ready'', [''on_node_ready''])]))
     = Inr (class_setattr example_class ''__wavelink_listeners__''
              (Dict [(''on_node_ready'', [''on_node_ready''])]))"
proof -
  have h: "wavelink_new example_class
     = Inr (class_setattr example_class ''__wavelink_listeners__''
              (Dict [(''on_node_ready'', [''on_node_ready''])]))"
    by (simp add: wavelink_new_def example_class_def class_setattr_def getmembers_def
          marked_function_def add_listener_def)
  have u: "unmarked_slot example_class"
    by (simp add: unmarked_slot_def class_listeners_def example_class_def marked_function_def)
  from wavelink_new_every_time[OF h] u
  have "wavelink_new (class_setattr example_class ''__wavelink_listeners__''
              (Dict [(''on_node_ready'', [''on_node_ready''])]))
     = Inr (class_setattr example_class ''__wavelink_listeners__''
              (Dict [(''on_node_ready'', [''on_node_ready''])]))"
    by blast
  with h u show ?thesis by simp
qed

section \<open>Properties of \<open>node.py\<close>\<close>

subsection \<open>\<open>penalty\<close>\<close>

lemma run_ops_available: "available (run_ops n ops) = last_available (available n) ops"
  unfolding run_ops_def
proof (induction ops arbitrary: n)
  case Nil
  show ?case by simp
next
  case (Cons x xs)
  show ?case by (cases x) (simp_all add: Cons.IH close_def open_node_def)
qed

lemma run_ops_stats: "stats (run_ops n ops) = last_stats (stats n) ops"
  unfolding run_ops_def
proof (induction ops arbitrary: n)
  case Nil
  show ?case by simp
next
  case (Cons x xs)
  show ?case by (cases x) (simp_all add: Cons.IH close_def open_node_def)
qed

text \<open>
  C5. \<open>penalty\<close> is a function of the node alone: it is \<open>9e30\<close> when \<open>available\<close> is false
  or there is no stats snapshot, and the snapshot's \<open>penalty.total\<close> otherwise. After any
  history of \<open>open()\<close>, \<open>close()\<close> and stats updates the same holds of the fields as the
  history leaves them, where the last \<open>open\<close>/\<open>close\<close> decides \<open>available\<close> and the last
  update decides \<open>stats\<close>. \<open>close\<close> sets \<open>available\<close> to false, \<open>open\<close> sets it to true, and
  putting the old value of \<open>available\<close> back gives the old node: no other field changed.
\<close>

theorem penalty_after_history:
  "penalty (run_ops n ops) =
     (if \<not> last_available (available n) ops \<or> last_stats (stats n) ops = None then 9 * 10 ^ 30
      else total (stats_penalty (the (last_stats (stats n) ops))))
   \<and> penalty n = (if \<not> available n \<or> stats n = None then 9 * 10 ^ 30
                  else total (stats_penalty (the (stats n))))
   \<and> available (close n) = False \<and> (close n)\<lparr>available := available n\<rparr> = n
   \<and> available (open_node n) = True \<and> (open_node n)\<lparr>available := available n\<rparr> = n"
  by (simp add: penalty_def run_ops_available run_ops_stats sentinel_def close_def open_node_def)

theorem penalty_after_history_witness:
  "penalty (run_ops example_node
      [StatsUpdate \<lparr>stats_penalty = \<lparr>total = 3\<rparr>\<rparr>, Close, StatsUpdate \<lparr>stats_penalty = \<lparr>total = 7\<rparr>\<rparr>, Open]) = 7
   \<and> penalty (run_ops example_node
      [StatsUpdate \<lparr>stats_penalty = \<lparr>total = 3\<rparr>\<rparr>, Open, Close]) = 9 * 10 ^ 30
   \<and> penalty (run_ops example_node [Close, Open]) = 9 * 10 ^ 30"
  using penalty_after_history [of example_node
      "[StatsUpdate \<lparr>stats_penalty = \<lparr>total = 3\<rparr>\<rparr>, Close, StatsUpdate \<lparr>stats_penalty = \<lparr>total = 7\<rparr>\<rparr>, Open]"]
    penalty_after_history [of example_node "[StatsUpdate \<lparr>stats_penalty = \<lparr>total = 3\<rparr>\<rparr>, Open, Close]"]
    penalty_after_history [of example_node "[Close, Open]"]
  by (simp add: example_node_def)

subsection \<open>\<open>get_tracks\<close>\<close>

text \<open>
  The loop when the first \<open>k\<close> requests fail and the next one is answered with status
  200: it ends at \<open>break\<close> with \<open>retries = 5 - k\<close> and the body of that answer.
\<close>

lemma request_loop_succeeds_after:
  assumes "k < retries"
    and "\<forall>j<k. failed (srv (i + j))"
    and "0 < k \<longrightarrow> asyncio_bound E"
    and "srv (i + k) = Inr resp" and "status resp = 200" and "json_result resp = Inr d"
  shows "request_loop E n srv query i retries data
           = (Inr (retries - k, Some d),
              concat (replicate k [loadtracks_request E n query, Sleep (2 / 10)])
                @ [loadtracks_request E n query])"
  using assms
proof (induction k arbitrary: i retries data)
  case 0
  then obtain r where r: "retries = Suc r" by (cases retries) auto
  show ?case using 0 by (simp add: r)
next
  case (Suc k)
  then obtain r where r: "retries = Suc r" by (cases retries) auto
  from Suc.prems have f0: "failed (srv i)" by (metis add.right_neutral zero_less_Suc)
  then obtain resp0 d0 where s0: "srv i = Inr resp0" "status resp0 \<noteq> 200" "json_result resp0 = Inr d0"
    by (auto simp: failed_def split: sum.splits)
  have ab: "asyncio_bound E" using Suc.prems by simp
  have rest: "\<forall>j<k. failed (srv (Suc i + j))" using Suc.prems(2) by (metis Suc_less_eq add_Suc_shift)
  have IH: "request_loop E n srv query (Suc i) r (Some d0)
           = (Inr (r - k, Some d),
              concat (replicate k [loadtracks_request E n query, Sleep (2 / 10)])
                @ [loadtracks_request E n query])"
    using Suc.IH[of r "Suc i" "Some d0"] Suc.prems rest ab r by simp
  show ?case using s0 ab IH by (simp add: r)
qed

text \<open>The loop when every request fails and the name \<open>asyncio\<close> is bound.\<close>

lemma request_loop_exhausted:
  assumes "\<forall>j<retries. failed (srv (i + j))" and "asyncio_bound E"
  shows "\<exists>d. request_loop E n srv query i retries data
           = (Inr (0, d), concat (replicate retries [loadtracks_request E n query, Sleep (2 / 10)]))"
  using assms
proof (induction retries arbitrary: i data)
  case 0
  show ?case by simp
next
  case (Suc r)
  from Suc.prems have f0: "failed (srv i)" by (metis add.right_neutral zero_less_Suc)
  then obtain resp0 d0 where s0: "srv i = Inr resp0" "status resp0 \<noteq> 200" "json_result resp0 = Inr d0"
    by (auto simp: failed_def split: sum.splits)
  have rest: "\<forall>j<r. failed (srv (Suc i + j))" using Suc.prems(1) by (metis Suc_less_eq add_Suc_shift)
  from Suc.IH[OF rest Suc.prems(2), of "Some d0"] obtain d where
    "request_loop E n srv query (Suc i) r (Some d0)
       = (Inr (0, d), concat (replicate r [loadtracks_request E n query, Sleep (2 / 10)]))" by blast
  then show ?case using s0 Suc.prems(2) by simp
qed

lemma get_tracks_exhausted:
  assumes "\<forall>j<5. failed (srv j)" and "asyncio_bound E"
  shows "get_tracks E n srv query
           = (Inr NoTracks, concat (replicate 5 [loadtracks_request E n query, Sleep (2 / 10)]))"
proof -
  from assms(1) have "\<forall>j<5. failed (srv (0 + j))" by simp
  from request_loop_exhausted[OF this assms(2), of n query None] obtain d where
    "request_loop E n srv query 0 5 None
       = (Inr (0, d), concat (replicate 5 [loadtracks_request E n query, Sleep (2 / 10)]))" by blast
  then show ?thesis by (simp add: get_tracks_def read_tracks_def)
qed

lemma get_tracks_unbound_asyncio:
  assumes "failed (srv 0)" and "\<not> asyncio_bound E"
  shows "get_tracks E n srv query = (Inl (NameError ''asyncio''), [loadtracks_request E n query])"
  using assms by (auto simp: get_tracks_def failed_def eval_nat_numeral split: sum.splits)

lemma get_tracks_after:
  assumes "k < 5"
    and "\<forall>j<k. failed (srv j)"
    and "0 < k \<longrightarrow> asyncio_bound E"
    and "srv k = Inr resp" and "status resp = 200" and "json_result resp = Inr d"
  shows "get_tracks E n srv query
           = (read_tracks (5 - k) (Some d),
              concat (replicate k [loadtracks_request E n query, Sleep (2 / 10)])
                @ [loadtracks_request E n query])"
proof -
  have "request_loop E n srv query 0 5 None
           = (Inr (5 - k, Some d),
              concat (replicate k [loadtracks_request E n query, Sleep (2 / 10)])
                @ [loadtracks_request E n query])"
    using assms by (intro request_loop_succeeds_after[where resp = resp]) simp_all
  then show ?thesis by (simp add: get_tracks_def)
qed

text \<open>A 200 answer whose body has no \<open>tracks\<close> entry, or \<open>null\<close>, or an empty list there.\<close>

lemma get_tracks_no_tracks:
  assumes "k < 5"
    and "\<forall>j<k. failed (srv j)"
    and "0 < k \<longrightarrow> asyncio_bound E"
    and "srv k = Inr resp" and "status resp = 200" and "json_result resp = Inr (JObj kvs)"
    and "map_of kvs ''tracks'' \<in> {None, Some JNull, Some (JList [])}"
  shows "fst (get_tracks E n srv query) = Inr NoTracks"
  using assms(1,7) get_tracks_after[OF assms(1-6)]
  by (auto simp: read_tracks_def)

text \<open>
  C1. The claim: on non-200 answers \<open>get_tracks\<close> makes up to five attempts, 200ms apart,
  and then returns \<open>None\<close> instead of raising. After the first non-200 answer the code
  reaches \<open>await asyncio.sleep(0.2)\<close>, and \<open>node.py\<close> never imports \<open>asyncio\<close>: with the
  names the module's own import statements bind, the lookup raises \<open>NameError\<close>, after one
  request and no sleep. (\<open>get_tracks_exhausted\<close> above is the run the claim describes; it
  needs the name to be bound.)
\<close>

theorem get_tracks_first_failure_raises:
  "get_tracks (example_env False) example_node
      (\<lambda>i. Inr \<lparr>status = 503, json_result = Inr (JObj [])\<rparr>) ''ytsearch:abc''
     = (Inl (NameError ''asyncio''), [loadtracks_request (example_env False) example_node ''ytsearch:abc''])"
  by (simp add: get_tracks_def eval_nat_numeral example_env_def)

text \<open>
  C6, as the claim has it: a 200 answer with a non-null \<open>playlistInfo\<close> gives a
  \<open>TrackPlaylist\<close>, however many tracks there are. Two bodies show otherwise. With a
  playlist and an empty \<open>tracks\<close> list the \<open>not data.get("tracks")\<close> test comes first and
  the result is \<open>None\<close>. With \<open>playlistInfo\<close> the empty object, which is not null,
  \<open>if data["playlistInfo"]\<close> is false and the result is the plain list.
\<close>

theorem get_tracks_playlist_not_always:
  "get_tracks (example_env False) example_node
      (\<lambda>i. Inr \<lparr>status = 200, json_result = Inr (JObj [(''playlistInfo'', JObj [(''name'', JStr ''Mix'')]), (''tracks'', JList [])])\<rparr>)
      ''https://example.org/list''
     = (Inr NoTracks, [loadtracks_request (example_env False) example_node ''https://example.org/list''])
   \<and> get_tracks (example_env False) example_node
      (\<lambda>i. Inr \<lparr>status = 200, json_result = Inr (JObj [(''playlistInfo'', JObj []),
              (''tracks'', JList [JObj [(''track'', JStr ''QAAAjQIA''), (''info'', JObj [(''title'', JStr ''Song'')])]])])\<rparr>)
      ''ytsearch:song''
     = (Inr (TrackList [Track (JStr ''QAAAjQIA'') (JObj [(''title'', JStr ''Song'')])]),
        [loadtracks_request (example_env False) example_node ''ytsearch:song''])"
  by (simp add: get_tracks_def eval_nat_numeral read_tracks_def)

text \<open>
  C6, amended. When the answer with status 200 arrives (as the first answer, or after up
  to four failed requests where \<open>asyncio\<close> is bound) and its body has a non-empty \<open>tracks\<close>
  list and a \<open>playlistInfo\<close> that is true in Python's sense (not null and not empty),
  \<open>get_tracks\<close> returns \<open>TrackPlaylist(data=data)\<close>, whatever the length of the list.
\<close>

theorem get_tracks_playlist:
  assumes "k < 5"
    and "\<forall>j<k. failed (srv j)"
    and "0 < k \<longrightarrow> asyncio_bound E"
    and "srv k = Inr resp" and "status resp = 200" and "json_result resp = Inr (JObj kvs)"
    and "map_of kvs ''tracks'' = Some (JList (t # ts))"
    and "map_of kvs ''playlistInfo'' = Some pl" and "truthy pl"
  shows "fst (get_tracks E n srv query) = Inr (TrackPlaylist (JObj kvs))"
  using assms(1,7-) get_tracks_after[OF assms(1-6)]
  by (auto simp: read_tracks_def)

theorem get_tracks_playlist_witness:
  "fst (get_tracks (example_env True) example_node
      (\<lambda>i. if i < 2 then Inr \<lparr>status = 503, json_result = Inr JNull\<rparr>
            else Inr \<lparr>status = 200, json_result = Inr (JObj [(''playlistInfo'', JObj [(''name'', JStr ''Mix'')]),
                    (''tracks'', JList [JObj [(''track'', JStr ''QAAAjQIA'')], JObj [(''track'', JStr ''QAAAkgIA'')]])])\<rparr>)
      ''https://example.org/list'')
     = Inr (TrackPlaylist (JObj [(''playlistInfo'', JObj [(''name'', JStr ''Mix'')]),
                    (''tracks'', JList [JObj [(''track'', JStr ''QAAAjQIA'')], JObj [(''track'', JStr ''QAAAkgIA'')]])]))"
  using get_tracks_playlist
    [of 2 "\<lambda>i. if i < 2 then Inr \<lparr>status = 503, json_result = Inr JNull\<rparr>
            else Inr \<lparr>status = 200, json_result = Inr (JObj [(''playlistInfo'', JObj [(''name'', JStr ''Mix'')]),
                    (''tracks'', JList [JObj [(''track'', JStr ''QAAAjQIA'')], JObj [(''track'', JStr ''QAAAkgIA'')]])])\<rparr>"
        "example_env True"
        "\<lparr>status = 200, json_result = Inr (JObj [(''playlistInfo'', JObj [(''name'', JStr ''Mix'')]),
                    (''tracks'', JList [JObj [(''track'', JStr ''QAAAjQIA'')], JObj [(''track'', JStr ''QAAAkgIA'')]])])\<rparr>"
        "[(''playlistInfo'', JObj [(''name'', JStr ''Mix'')]),
          (''tracks'', JList [JObj [(''track'', JStr ''QAAAjQIA'')], JObj [(''track'', JStr ''QAAAkgIA'')]])]"
        "JObj [(''track'', JStr ''QAAAjQIA'')]" "[JObj [(''track'', JStr ''QAAAkgIA'')]]"
        "JObj [(''name'', JStr ''Mix'')]" example_node "''https://example.org/list''"]
  by (simp add: failed_def example_env_def)

subsection \<open>\<open>build_track\<close>\<close>

text \<open>
  C7. The claim: on status 200 \<open>build_track\<close> returns the track with the given identifier,
  and on any other status it raises \<open>BuildTrackError\<close> with the status and error the
  server reported, these being the only two outcomes. The code is inside
  \<open>raise BuildTrackError(...)\<close> when it reads \<open>data["status"]\<close> and \<open>data["error"]\<close> for the
  message, without a test that they are there. On a 404 whose body is
  \<open>{"message": "Not Found"}\<close> the read of \<open>status\<close> raises \<open>KeyError\<close>, so the caller gets
  neither a track nor the \<open>BuildTrackError\<close> the docstring announces.
\<close>

theorem build_track_bare_404:
  "build_track (example_env True) example_node
       (Inr \<lparr>status = 404, json_result = Inr (JObj [(''message'', JStr ''Not Found'')])\<rparr>) ''QAAAjQIA''
     = (Inl (KeyError ''status''), [decodetrack_request example_node ''QAAAjQIA''])"
  by (simp add: build_track_def)

text \<open>
  The two outcomes the docstring describes. For an answer whose body decodes: with
  status 200 \<open>build_track\<close> returns the track made of the given identifier and the body;
  with another status and a body that has both a \<open>status\<close> and an \<open>error\<close> entry it raises
  \<open>BuildTrackError\<close> with a message that holds both; in either case exactly one request
  was sent.
\<close>

theorem build_track_outcomes:
  assumes "json_result resp = Inr data"
  shows "(status resp = 200 \<longrightarrow>
            build_track E n (Inr resp) ident
              = (Inr (Track (JStr ident) data), [decodetrack_request n ident]))
       \<and> (status resp \<noteq> 200 \<and> data = JObj kvs \<and> map_of kvs ''status'' = Some st
            \<and> map_of kvs ''error'' = Some err \<longrightarrow>
            build_track E n (Inr resp) ident
              = (Inl (BuildTrackError (build_error_message E st err)), [decodetrack_request n ident]))"
  using assms by (simp add: build_track_def)

theorem build_track_outcomes_witness:
  "build_track (example_env True) example_node
       (Inr \<lparr>status = 200, json_result = Inr (JObj [(''title'', JStr ''Song'')])\<rparr>) ''QAAAjQIA''
     = (Inr (Track (JStr ''QAAAjQIA'') (JObj [(''title'', JStr ''Song'')])),
        [decodetrack_request example_node ''QAAAjQIA''])
   \<and> build_track (example_env True) example_node
       (Inr \<lparr>status = 404, json_result = Inr (JObj [(''status'', JStr ''404''), (''error'', JStr ''Not Found'')])\<rparr>)
       ''QAAAjQIA''
     = (Inl (BuildTrackError
          ''Failed to build track. Status: 404, Error: Not Found.Check the identfier is correct and try again.''),
        [decodetrack_request example_node ''QAAAjQIA''])"
  using build_track_outcomes
     [of "\<lparr>status = 200, json_result = Inr (JObj [(''title'', JStr ''Song'')])\<rparr>"
         "JObj [(''title'', JStr ''Song'')]" "example_env True" example_node "''QAAAjQIA''"]
    build_track_outcomes
     [of "\<lparr>status = 404, json_result = Inr (JObj [(''status'', JStr ''404''), (''error'', JStr ''Not Found'')])\<rparr>"
         "JObj [(''status'', JStr ''404''), (''error'', JStr ''Not Found'')]"
         "example_env True" example_node "''QAAAjQIA''"
         "[(''status'', JStr ''404''), (''error'', JStr ''Not Found'')]" "JStr ''404''" "JStr ''Not Found''"]
  by (simp add: build_error_message_def example_env_def)

text \<open>
  C10, as the claim has it: every answer with a status other than 200 whose decoded body
  lacks the \<open>status\<close> or the \<open>error\<close> key makes \<open>build_track\<close> raise \<open>KeyError\<close>. A body that
  is \<open>null\<close> or a list has neither key, and subscripting it with a string raises
  \<open>TypeError\<close>.
\<close>

theorem build_track_body_not_dict:
  "fst (build_track (example_env True) example_node
        (Inr \<lparr>status = 500, json_result = Inr JNull\<rparr>) ''QAAAjQIA'') = Inl (TypeError ''subscript'')
   \<and> fst (build_track (example_env True) example_node
        (Inr \<lparr>status = 500, json_result = Inr (JList [])\<rparr>) ''QAAAjQIA'') = Inl (TypeError ''subscript'')"
  by (simp add: build_track_def)

text \<open>
  C10, amended. For an answer with a status other than 200 whose body decodes: when the
  body is a dictionary and its \<open>status\<close> or \<open>error\<close> entry is missing, \<open>build_track\<close> raises
  \<open>KeyError\<close> for the first missing key and not \<open>BuildTrackError\<close>; and it raises
  \<open>BuildTrackError\<close> exactly when the body is a dictionary that has both entries.
\<close>

theorem build_track_missing_key:
  assumes "status resp \<noteq> 200" and "json_result resp = Inr d"
  shows "(\<forall>kvs. d = JObj kvs \<and> (map_of kvs ''status'' = None \<or> map_of kvs ''error'' = None) \<longrightarrow>
            fst (build_track E n (Inr resp) ident)
              = Inl (KeyError (if map_of kvs ''status'' = None then ''status'' else ''error'')))
       \<and> ((\<exists>m. fst (build_track E n (Inr resp) ident) = Inl (BuildTrackError m))
            = (\<exists>kvs. d = JObj kvs \<and> map_of kvs ''status'' \<noteq> None \<and> map_of kvs ''error'' \<noteq> None))"
  using assms by (cases d) (auto simp: build_track_def split: option.splits)

theorem build_track_missing_key_witness:
  "status \<lparr>status = 500, json_result = Inr (JObj [(''status'', JNum 500)])\<rparr> \<noteq> 200
   \<and> map_of [(''status'', JNum 500)] ''error'' = None
   \<and> fst (build_track (example_env True) example_node
        (Inr \<lparr>status = 500, json_result = Inr (JObj [(''status'', JNum 500)])\<rparr>) ''QAAAjQIA'')
      = Inl (KeyError ''error'')
   \<and> fst (build_track (example_env True) example_node
        (Inr \<lparr>status = 500, json_result = Inr (JObj [(''error'', JStr ''Internal Server Error'')])\<rparr>)
        ''QAAAjQIA'')
      = Inl (KeyError ''status'')"
  using build_track_missing_key
    [of "\<lparr>status = 500, json_result = Inr (JObj [(''status'', JNum 500)])\<rparr>"
        "JObj [(''status'', JNum 500)]" "example_env True" example_node "''QAAAjQIA''"]
    build_track_missing_key
    [of "\<lparr>status = 500, json_result = Inr (JObj [(''error'', JStr ''Internal Server Error'')])\<rparr>"
        "JObj [(''error'', JStr ''Internal Server Error'')]" "example_env True" example_node "''QAAAjQIA''"]
  by simp

subsection \<open>\<open>on_event\<close>\<close>

text \<open>
  C8, as the claim has it: for every event, after the player's hook the node hook, if
  set, is invoked, and with no node hook set \<open>on_event\<close> returns normally. The await of
  the player's hook has no handler. When that hook raises, \<open>on_event\<close> raises with it:
  it does not return normally although no node hook is set, and a node hook that is set
  is not invoked.
\<close>

theorem on_event_player_hook_raises:
  "on_event (\<lambda>p ev. Some (OtherException ''hook failed'')) example_node
      \<lparr>event_player = Some (Player 7), event_name = ''TrackEndEvent''\<rparr>
     = (Inl (OtherException ''hook failed''), [AwaitPlayerHook (Player 7)])
   \<and> on_event (\<lambda>p ev. Some (OtherException ''hook failed''))
      (example_node\<lparr>hook := Some \<lparr>hook_is_coroutine = True, hook_run = (\<lambda>ev. None)\<rparr>\<rparr>)
      \<lparr>event_player = Some (Player 7), event_name = ''TrackEndEvent''\<rparr>
     = (Inl (OtherException ''hook failed''), [AwaitPlayerHook (Player 7)])"
  by (simp add: on_event_def example_node_def)

text \<open>
  C8, amended. When the event carries a player, the first hook invocation of the dispatch
  is the awaited player hook, and whatever follows it is an invocation of the node hook.
  When the player hook raises, \<open>on_event\<close> raises the same exception and no node hook is
  invoked. When the player hook (if there is a player) returns, the node hook, if set, is
  invoked once after it, awaited when it is a coroutine function and called otherwise,
  and \<open>on_event\<close> ends as that hook ends; with no node hook set it returns normally.
\<close>

theorem on_event_order:
  "(event_player ev = Some p \<longrightarrow>
      (\<exists>rest. snd (on_event player_hook n ev) = AwaitPlayerHook p # rest
             \<and> set rest \<subseteq> {AwaitNodeHook, CallNodeHook}))
   \<and> (event_player ev = Some p \<and> player_hook p ev = Some e \<longrightarrow>
        on_event player_hook n ev = (Inl e, [AwaitPlayerHook p]))
   \<and> ((\<forall>q. event_player ev = Some q \<longrightarrow> player_hook q ev = None) \<longrightarrow>
        snd (on_event player_hook n ev)
          = (case event_player ev of Some q \<Rightarrow> [AwaitPlayerHook q] | None \<Rightarrow> [])
            @ (case hook n of None \<Rightarrow> []
               | Some h \<Rightarrow> [if hook_is_coroutine h then AwaitNodeHook else CallNodeHook])
        \<and> fst (on_event player_hook n ev)
          = (case hook n of None \<Rightarrow> Inr ()
             | Some h \<Rightarrow> (case hook_run h ev of None \<Rightarrow> Inr () | Some e \<Rightarrow> Inl e)))"
  by (auto simp: on_event_def node_hook_step_def split: option.splits prod.splits if_splits)

theorem on_event_order_witness:
  "on_event (\<lambda>p ev. None)
      (example_node\<lparr>hook := Some \<lparr>hook_is_coroutine = False, hook_run = (\<lambda>ev. None)\<rparr>\<rparr>)
      \<lparr>event_player = Some (Player 7), event_name = ''TrackEndEvent''\<rparr>
     = (Inr (), [AwaitPlayerHook (Player 7), CallNodeHook])
   \<and> on_event (\<lambda>p ev. None)
      (example_node\<lparr>hook := Some \<lparr>hook_is_coroutine = True, hook_run = (\<lambda>ev. None)\<rparr>\<rparr>)
      \<lparr>event_player = Some (Player 7), event_name = ''TrackEndEvent''\<rparr>
     = (Inr (), [AwaitPlayerHook (Player 7), AwaitNodeHook])
   \<and> on_event (\<lambda>p ev. None) example_node
      \<lparr>event_player = Some (Player 7), event_name = ''TrackEndEvent''\<rparr>
     = (Inr (), [AwaitPlayerHook (Player 7)])
   \<and> on_event (\<lambda>p ev. Some (KeyError ''guild''))
      (example_node\<lparr>hook := Some \<lparr>hook_is_coroutine = False, hook_run = (\<lambda>ev. None)\<rparr>\<rparr>)
      \<lparr>event_player = Some (Player 7), event_name = ''TrackEndEvent''\<rparr>
     = (Inl (KeyError ''guild''), [AwaitPlayerHook (Player 7)])"
  using on_event_order
     [of "\<lparr>event_player = Some (Player 7), event_name = ''TrackEndEvent''\<rparr>" "Player 7"
         "\<lambda>p ev. Some (KeyError ''guild'')"
         "example_node\<lparr>hook := Some \<lparr>hook_is_coroutine = False, hook_run = (\<lambda>ev. None)\<rparr>\<rparr>"
         "KeyError ''guild''"]
    on_event_order
     [of "\<lparr>event_player = Some (Player 7), event_name = ''TrackEndEvent''\<rparr>" "Player 7" "\<lambda>p ev. None"
         "example_node\<lparr>hook := Some \<lparr>hook_is_coroutine = False, hook_run = (\<lambda>ev. None)\<rparr>\<rparr>"]
    on_event_order
     [of "\<lparr>event_player = Some (Player 7), event_name = ''TrackEndEvent''\<rparr>" "Player 7" "\<lambda>p ev. None"
         "example_node\<lparr>hook := Some \<lparr>hook_is_coroutine = True, hook_run = (\<lambda>ev. None)\<rparr>\<rparr>"]
    on_event_order
     [of "\<lparr>event_player = Some (Player 7), event_name = ''TrackEndEvent''\<rparr>" "Player 7" "\<lambda>p ev. None"
         example_node]
  by (simp add: prod_eq_iff example_node_def)

subsection \<open>\<open>destroy\<close>\<close>














end
